theory Spec2Isabelle
  imports Main
begin

section \<open>Python values\<close>

text \<open>
  This theory embeds \<^verbatim>\<open>pydantic/_internal/_validate_call.py\<close>: the class
  \<^verbatim>\<open>ValidateCallWrapper\<close> with its constructor, \<^verbatim>\<open>__call__\<close>, the descriptor method
  \<^verbatim>\<open>__get__\<close>, \<^verbatim>\<open>__set_name__\<close>, \<^verbatim>\<open>__eq__\<close> and \<^verbatim>\<open>__hash__\<close>.

  Objects with identity (classes, instances, wrappers) live in a heap and are named by
  addresses. Exceptions are values of the type \<open>error\<close>; a fallible operation returns
  \<open>error + 'a\<close> with \<open>Inl\<close> for the exception.
\<close>

type_synonym addr = nat

datatype error =
    AttributeError
  | TypeError
  | ValueError
  | SchemaBuildError
  | ValidationError
  | Raised string
  | DanglingReference

text \<open>
  \<open>Raised\<close> stands for whatever exception the body of a wrapped callable raises itself.
  \<open>DanglingReference\<close> is not a Python exception: it is the outcome of the model on an
  address that the heap does not hold, which a running program cannot produce.
\<close>

datatype pyval =
    PNone
  | PBool bool
  | PInt int
  | PStr string
  | PInst addr
  | PCls addr

type_synonym kwargs = "(string \<times> pyval) list"

text \<open>
  Python's \<^verbatim>\<open>==\<close> on these values: \<^verbatim>\<open>bool\<close> is a subclass of \<^verbatim>\<open>int\<close>
  (\<^verbatim>\<open>True == 1\<close>), instances and classes compare by identity, and values of unrelated
  types are unequal. In particular a class object never equals a string: classes are
  taken to have a metaclass that does not define \<^verbatim>\<open>__eq__\<close>, as \<^verbatim>\<open>type\<close> does not.
\<close>

fun py_eq :: "pyval \<Rightarrow> pyval \<Rightarrow> bool" where
  "py_eq PNone PNone = True"
| "py_eq (PBool a) (PBool b) = (a = b)"
| "py_eq (PBool a) (PInt b) = ((if a then 1 else 0) = b)"
| "py_eq (PInt a) (PBool b) = (a = (if b then 1 else 0))"
| "py_eq (PInt a) (PInt b) = (a = b)"
| "py_eq (PStr a) (PStr b) = (a = b)"
| "py_eq (PInst a) (PInst b) = (a = b)"
| "py_eq (PCls a) (PCls b) = (a = b)"
| "py_eq _ _ = False"

definition py_ne :: "pyval \<Rightarrow> pyval \<Rightarrow> bool" where
  "py_ne a b = (\<not> py_eq a b)"

text \<open>
  \<^verbatim>\<open>ConfigDict\<close> is a dictionary; \<^verbatim>\<open>_config\<close> is a dictionary or \<^verbatim>\<open>None\<close>.
  Two dictionaries are equal when they have the same keys with equal values.
\<close>

type_synonym config_dict = "(string \<times> pyval) list"

definition dict_eq :: "config_dict \<Rightarrow> config_dict \<Rightarrow> bool" where
  "dict_eq d1 d2 =
     list_all (\<lambda>k. case (map_of d1 k, map_of d2 k) of
                      (Some u, Some v) \<Rightarrow> py_eq u v
                    | _ \<Rightarrow> False)
              (map fst d1 @ map fst d2)"

fun config_eq :: "config_dict option \<Rightarrow> config_dict option \<Rightarrow> bool" where
  "config_eq None None = True"
| "config_eq (Some d1) (Some d2) = dict_eq d1 d2"
| "config_eq _ _ = False"

section \<open>Callables\<close>

text \<open>
  A function object carries its identity (\<open>fn_id\<close>, standing for the object's address),
  the attributes the constructor reads, and whether it was defined with \<^verbatim>\<open>async def\<close>.
  A callable is a function, a bound method (\<^verbatim>\<open>__func__\<close>, \<^verbatim>\<open>__self__\<close>) or a
  \<^verbatim>\<open>functools.partial\<close> object (its identity, \<^verbatim>\<open>func\<close>, \<^verbatim>\<open>args\<close>, \<^verbatim>\<open>keywords\<close>).
\<close>

record function_obj =
  fn_id :: nat
  fn_name :: string
  fn_qualname :: string
  fn_annotations :: "(string \<times> string) list"
  fn_module :: string
  fn_doc :: "string option"
  fn_async :: bool

datatype callable =
    Function function_obj
  | BoundMethod callable addr
  | Partial nat callable "pyval list" kwargs

text \<open>
  Attribute reads on a callable. A bound method forwards every one of these attributes to
  its \<^verbatim>\<open>__func__\<close>. A \<^verbatim>\<open>functools.partial\<close> object has no \<^verbatim>\<open>__name__\<close>,
  \<^verbatim>\<open>__qualname__\<close> or \<^verbatim>\<open>__annotations__\<close> (reading them raises \<^verbatim>\<open>AttributeError\<close>);
  its \<^verbatim>\<open>__module__\<close> and \<^verbatim>\<open>__doc__\<close> are those of the class \<^verbatim>\<open>partial\<close>
  (the docstring is cut to its first words here; the constructor never reads it, since
  reading \<^verbatim>\<open>__name__\<close> fails first).
\<close>

fun callable_name :: "callable \<Rightarrow> error + string" where
  "callable_name (Function f) = Inr (fn_name f)"
| "callable_name (BoundMethod c s) = callable_name c"
| "callable_name (Partial p c a k) = Inl AttributeError"

fun callable_qualname :: "callable \<Rightarrow> error + string" where
  "callable_qualname (Function f) = Inr (fn_qualname f)"
| "callable_qualname (BoundMethod c s) = callable_qualname c"
| "callable_qualname (Partial p c a k) = Inl AttributeError"

fun callable_annotations :: "callable \<Rightarrow> error + (string \<times> string) list" where
  "callable_annotations (Function f) = Inr (fn_annotations f)"
| "callable_annotations (BoundMethod c s) = callable_annotations c"
| "callable_annotations (Partial p c a k) = Inl AttributeError"

fun callable_module :: "callable \<Rightarrow> error + string" where
  "callable_module (Function f) = Inr (fn_module f)"
| "callable_module (BoundMethod c s) = callable_module c"
| "callable_module (Partial p c a k) = Inr ''functools''"

fun callable_doc :: "callable \<Rightarrow> error + string option" where
  "callable_doc (Function f) = Inr (fn_doc f)"
| "callable_doc (BoundMethod c s) = callable_doc c"
| "callable_doc (Partial p c a k) = Inr (Some ''partial(func, *args, **keywords)'')"

text \<open>
  \<^verbatim>\<open>inspect.iscoroutinefunction\<close> looks through bound methods and partial objects.
\<close>

fun iscoroutinefunction :: "callable \<Rightarrow> bool" where
  "iscoroutinefunction (Function f) = fn_async f"
| "iscoroutinefunction (BoundMethod c s) = iscoroutinefunction c"
| "iscoroutinefunction (Partial p c a k) = iscoroutinefunction c"

text \<open>
  \<^verbatim>\<open>raw_function.__get__(obj, objtype)\<close>. A function returns itself when \<^verbatim>\<open>obj\<close> is
  \<^verbatim>\<open>None\<close> and a method bound to \<^verbatim>\<open>obj\<close> otherwise. The type of bound methods defines no
  \<^verbatim>\<open>__get__\<close>, so the read is forwarded to \<^verbatim>\<open>__func__\<close> and the function is bound
  again. A partial object has no \<^verbatim>\<open>__get__\<close>.
\<close>

fun callable_get :: "callable \<Rightarrow> addr option \<Rightarrow> error + callable" where
  "callable_get (Function f) None = Inr (Function f)"
| "callable_get (Function f) (Some obj) = Inr (BoundMethod (Function f) obj)"
| "callable_get (BoundMethod c s) obj = callable_get c obj"
| "callable_get (Partial p c a k) obj = Inl AttributeError"

text \<open>
  Equality and hash of callables: functions and partial objects compare by identity; two
  bound methods are equal when they have the same \<^verbatim>\<open>__self__\<close> object and equal
  \<^verbatim>\<open>__func__\<close>. The hash of an object with identity is derived from its address; that of
  a bound method combines the hashes of \<^verbatim>\<open>__self__\<close> and \<^verbatim>\<open>__func__\<close>.
\<close>

fun callable_eq :: "callable \<Rightarrow> callable \<Rightarrow> bool" where
  "callable_eq (Function f) (Function g) = (fn_id f = fn_id g)"
| "callable_eq (BoundMethod c s) (BoundMethod d t) = (s = t \<and> callable_eq c d)"
| "callable_eq (Partial p c a k) (Partial q d b l) = (p = q)"
| "callable_eq _ _ = False"

fun hash_callable :: "callable \<Rightarrow> int" where
  "hash_callable (Function f) = int (fn_id f)"
| "hash_callable (BoundMethod c s) = int s + hash_callable c"
| "hash_callable (Partial p c a k) = int p"

section \<open>Signatures, schemas and validators\<close>

datatype annot = Any | Annotation string

record signature =
  sig_parameters :: "(string \<times> annot option) list"
  return_annotation :: "annot option"

text \<open>
  \<open>return_annotation = None\<close> stands for \<^verbatim>\<open>Signature.empty\<close>.

  A schema is data: the call schema of a callable (arguments schema and the function to
  call) or the schema of a type. A validator records what \<^verbatim>\<open>create_schema_validator\<close>
  was given.
\<close>

datatype schema = Call_schema callable | Type_schema annot

record validator =
  v_schema :: schema
  v_schema_type :: callable
  v_module :: string
  v_qualname :: string
  v_schema_kind :: string
  v_core_config :: "config_dict option"

text \<open>
  What passes through a validator or comes back from a call: a plain value, an
  \<^verbatim>\<open>ArgsKwargs\<close> bundle, or a coroutine object still to be awaited. A coroutine object
  is either the call of an \<^verbatim>\<open>async def\<close> function (its identity and arguments) or the
  call \<^verbatim>\<open>return_val_wrapper(aw)\<close> of the closure defined in the constructor (the
  validator it closes over, and \<^verbatim>\<open>aw\<close>).
\<close>

datatype pyres =
    Plain pyval
  | ArgsKwargs "pyval list" kwargs
  | Pending coroutine
and coroutine =
    Fn_coro nat "pyval list" kwargs
  | Return_val_coro validator pyres

text \<open>
  The collaborators outside this file, as parameters:
  \<^item> \<open>inspect_signature\<close>: \<^verbatim>\<open>inspect.signature\<close>, \<open>None\<close> when it raises;
  \<^item> \<open>resolvable\<close>: whether the schema generator can build a schema for a target under a
    configuration;
  \<^item> \<open>accepts_args\<close>: the arguments schema of a callable, returning the coerced arguments
    or \<open>None\<close> when they are invalid;
  \<^item> \<open>accepts_value\<close>: the same for the schema of a type;
  \<^item> \<open>body\<close>: what the body of the function with a given identity does to the program's
    state \<open>'s\<close> and what it returns or raises.
\<close>

record 's collaborators =
  inspect_signature :: "callable \<Rightarrow> signature option"
  resolvable :: "config_dict option \<Rightarrow> callable + annot \<Rightarrow> bool"
  accepts_args :: "validator \<Rightarrow> pyval list \<Rightarrow> kwargs \<Rightarrow> (pyval list \<times> kwargs) option"
  accepts_value :: "validator \<Rightarrow> pyres \<Rightarrow> pyres option"
  body :: "nat \<Rightarrow> pyval list \<Rightarrow> kwargs \<Rightarrow> 's \<Rightarrow> (error + pyres) \<times> 's"

text \<open>
  The world a call acts on: the log of invocations of raw callables (identity of the
  function reached and the arguments it received) and the program's state.
\<close>

record 's world =
  invoked :: "(nat \<times> pyval list \<times> kwargs) list"
  store :: 's

subsection \<open>Calling a raw callable\<close>

text \<open>
  A bound method prepends \<^verbatim>\<open>__self__\<close>; a partial object prepends its \<^verbatim>\<open>args\<close> and
  merges its \<^verbatim>\<open>keywords\<close> with those of the call, the call's winning.
\<close>

definition merge_keywords :: "kwargs \<Rightarrow> kwargs \<Rightarrow> kwargs" where
  "merge_keywords pk k =
     map (\<lambda>(n, v). (n, case map_of k n of Some v' \<Rightarrow> v' | None \<Rightarrow> v)) pk
     @ filter (\<lambda>(n, v). map_of pk n = None) k"

fun unfold_call :: "callable \<Rightarrow> pyval list \<Rightarrow> kwargs \<Rightarrow> function_obj \<times> pyval list \<times> kwargs" where
  "unfold_call (Function f) a k = (f, a, k)"
| "unfold_call (BoundMethod c s) a k = unfold_call c (PInst s # a) k"
| "unfold_call (Partial p c pa pk) a k = unfold_call c (pa @ a) (merge_keywords pk k)"

text \<open>
  Calling a function defined with \<^verbatim>\<open>async def\<close> creates a coroutine object and runs
  nothing of the body; any other function runs its body.
\<close>

definition invoke :: "'s collaborators \<Rightarrow> callable \<Rightarrow> pyval list \<Rightarrow> kwargs \<Rightarrow> 's world
    \<Rightarrow> (error + pyres) \<times> 's world" where
  "invoke ext c a k w =
     (case unfold_call c a k of (f, a', k') \<Rightarrow>
        let w' = w\<lparr>invoked := invoked w @ [(fn_id f, a', k')]\<rparr>
        in if fn_async f then (Inr (Pending (Fn_coro (fn_id f) a' k')), w')
           else (case body ext (fn_id f) a' k' (store w') of
                   (r, st) \<Rightarrow> (r, w'\<lparr>store := st\<rparr>)))"

subsection \<open>The schema generator and the validator engine\<close>

text \<open>
  Modelled from the spec: \<^verbatim>\<open>GenerateSchema(...).clean_schema(generate_schema(target))\<close>
  of \<^verbatim>\<open>pydantic/_internal/_generate_schema.py\<close>, which is not part of the sources at
  hand. The spec: the generator compiles a callable or a type into a schema and fails
  with a schema build error on an unresolvable annotation or invalid configuration.
\<close>

definition generate_schema :: "'s collaborators \<Rightarrow> config_dict option \<Rightarrow> callable + annot
    \<Rightarrow> error + schema" where
  "generate_schema ext cfg target =
     (if resolvable ext cfg target
      then Inr (case target of Inl f \<Rightarrow> Call_schema f | Inr t \<Rightarrow> Type_schema t)
      else Inl SchemaBuildError)"

text \<open>
  Modelled from the spec: \<^verbatim>\<open>create_schema_validator\<close> of
  \<^verbatim>\<open>pydantic/plugin/_schema_validator.py\<close>, which is not part of the sources at hand.
  The spec: \<^verbatim>\<open>create_validator(schema, target, module, qualified_name, context_tag,
  core_config, plugin_settings) -> Validator\<close>.
\<close>

definition create_schema_validator :: "schema \<Rightarrow> callable \<Rightarrow> string \<Rightarrow> string \<Rightarrow> string
    \<Rightarrow> config_dict option \<Rightarrow> validator" where
  "create_schema_validator sch schema_type md qn kind core_config =
     \<lparr>v_schema = sch, v_schema_type = schema_type, v_module = md, v_qualname = qn,
      v_schema_kind = kind, v_core_config = core_config\<rparr>"

text \<open>
  Modelled from the spec: \<^verbatim>\<open>SchemaValidator.validate_python\<close> of the validator
  engine, which is not part of the sources at hand. The spec:
  \<^verbatim>\<open>Validator.validate(value) -> value | raises ValidationError\<close>; for the argument
  validator, ``the validator executes the underlying callable as part of validation
  (argument coercion may transform values before the call) and yields its result'', and
  ``the underlying callable is never invoked on argument-validation failure''.
\<close>

definition validate_python :: "'s collaborators \<Rightarrow> validator \<Rightarrow> pyres \<Rightarrow> 's world
    \<Rightarrow> (error + pyres) \<times> 's world" where
  "validate_python ext v x w =
     (case v_schema v of
        Call_schema f \<Rightarrow>
          (case x of
             ArgsKwargs a k \<Rightarrow>
               (case accepts_args ext v a k of
                  None \<Rightarrow> (Inl ValidationError, w)
                | Some (a', k') \<Rightarrow> invoke ext f a' k' w)
           | _ \<Rightarrow> (Inl ValidationError, w))
      | Type_schema t \<Rightarrow>
          (case accepts_value ext v x of
             None \<Rightarrow> (Inl ValidationError, w)
           | Some y \<Rightarrow> (Inr y, w)))"

section \<open>The wrapper\<close>

text \<open>
  The attributes of a \<^verbatim>\<open>ValidateCallWrapper\<close>. Python names that are not Isabelle
  identifiers are renamed: \<open>w_config\<close> is \<^verbatim>\<open>_config\<close>, \<open>w_validate_return\<close> is
  \<^verbatim>\<open>_validate_return\<close>, \<open>w_signature\<close>, \<open>w_name\<close>, \<open>w_qualname\<close>, \<open>w_annotations\<close>,
  \<open>w_module\<close> and \<open>w_doc\<close> are \<^verbatim>\<open>__signature__\<close>, \<^verbatim>\<open>__name__\<close>,
  \<^verbatim>\<open>__qualname__\<close>, \<^verbatim>\<open>__annotations__\<close>, \<^verbatim>\<open>__module__\<close> and \<^verbatim>\<open>__doc__\<close>, the
  four \<open>pydantic\<close> fields are the attributes of that name between double underscores,
  and \<open>attr_name\<close> is \<^verbatim>\<open>_name\<close>.

  \<^verbatim>\<open>__return_pydantic_validator__\<close> holds \<^verbatim>\<open>None\<close>, the bound method
  \<^verbatim>\<open>validator.validate_python\<close>, or the closure \<^verbatim>\<open>return_val_wrapper\<close> over
  \<^verbatim>\<open>validator\<close>.
\<close>

datatype return_validator = Validate_python validator | Return_val_wrapper validator

record wrapper =
  raw_function :: callable
  w_config :: "config_dict option"
  w_validate_return :: bool
  w_signature :: signature
  w_name :: string
  w_qualname :: string
  w_annotations :: "(string \<times> string) list"
  w_module :: string
  w_doc :: "string option"
  pydantic_core_schema :: schema
  pydantic_validator :: validator
  return_pydantic_core_schema :: "schema option"
  return_pydantic_validator :: "return_validator option"
  attr_name :: "string option"

subsection \<open>The constructor\<close>

text \<open>
  Lines 47 to 61 of \<^verbatim>\<open>__init__\<close>: the target of the schema and the five identity
  attributes, read in the order of the source, each read raising \<^verbatim>\<open>AttributeError\<close>
  when the attribute is missing. \<open>sum_bind\<close> sequences two steps, the exception of the
  first one propagating.
\<close>

definition sum_bind :: "error + 'a \<Rightarrow> ('a \<Rightarrow> error + 'b) \<Rightarrow> error + 'b" where
  "sum_bind r f = (case r of Inl e \<Rightarrow> Inl e | Inr x \<Rightarrow> f x)"

definition identity_fields :: "callable \<Rightarrow>
    error + (callable \<times> string \<times> string \<times> (string \<times> string) list \<times> string \<times> string option)" where
  "identity_fields function =
     (case function of
        Partial p func a k \<Rightarrow>
          sum_bind (callable_name func) (\<lambda>n.
          sum_bind (callable_qualname func) (\<lambda>q.
          sum_bind (callable_annotations func) (\<lambda>an.
          sum_bind (callable_module func) (\<lambda>m.
          sum_bind (callable_doc func) (\<lambda>d.
            Inr (func, ''partial('' @ n @ '')'', ''partial('' @ q @ '')'', an, m, d))))))
      | _ \<Rightarrow>
          sum_bind (callable_name function) (\<lambda>n.
          sum_bind (callable_qualname function) (\<lambda>q.
          sum_bind (callable_annotations function) (\<lambda>an.
          sum_bind (callable_module function) (\<lambda>m.
          sum_bind (callable_doc function) (\<lambda>d.
            Inr (function, n, q, an, m, d)))))))"

text \<open>
  \<^verbatim>\<open>__init__\<close>. The namespace and the plugin settings only parametrise the schema
  generator and the validator engine; the core configuration is derived from
  \<^verbatim>\<open>config\<close>, which stands for it here. A constructor that raises builds no wrapper.
\<close>

definition ValidateCallWrapper_init :: "'s collaborators \<Rightarrow> callable \<Rightarrow> config_dict option
    \<Rightarrow> bool \<Rightarrow> error + wrapper" where
  "ValidateCallWrapper_init ext function config validate_return =
     (case inspect_signature ext function of
        None \<Rightarrow> Inl ValueError
      | Some sg \<Rightarrow>
     (case identity_fields function of
        Inl e \<Rightarrow> Inl e
      | Inr (schema_type, nm, qn, an, md, dc) \<Rightarrow>
     (case generate_schema ext config (Inl function) of
        Inl e \<Rightarrow> Inl e
      | Inr sch \<Rightarrow>
          let v = create_schema_validator sch schema_type md qn ''validate_call'' config
          in if validate_return then
               let return_type = (case return_annotation sg of Some t \<Rightarrow> t | None \<Rightarrow> Any)
               in (case generate_schema ext config (Inr return_type) of
                     Inl e \<Rightarrow> Inl e
                   | Inr rsch \<Rightarrow>
                       let validator =
                             create_schema_validator rsch schema_type md qn ''validate_call'' config
                       in Inr \<lparr>raw_function = function, w_config = config,
                               w_validate_return = validate_return, w_signature = sg,
                               w_name = nm, w_qualname = qn, w_annotations = an,
                               w_module = md, w_doc = dc,
                               pydantic_core_schema = sch, pydantic_validator = v,
                               return_pydantic_core_schema = Some rsch,
                               return_pydantic_validator =
                                 Some (if iscoroutinefunction function
                                       then Return_val_wrapper validator
                                       else Validate_python validator),
                               attr_name = None\<rparr>)
             else Inr \<lparr>raw_function = function, w_config = config,
                       w_validate_return = validate_return, w_signature = sg,
                       w_name = nm, w_qualname = qn, w_annotations = an,
                       w_module = md, w_doc = dc,
                       pydantic_core_schema = sch, pydantic_validator = v,
                       return_pydantic_core_schema = None,
                       return_pydantic_validator = None,
                       attr_name = None\<rparr>)))"

subsection \<open>Calling the wrapper, and awaiting what it returns\<close>

text \<open>
  \<^verbatim>\<open>__call__\<close>: an exception of the argument validator propagates; otherwise the result
  goes through whatever \<^verbatim>\<open>__return_pydantic_validator__\<close> holds. Calling the closure
  \<^verbatim>\<open>return_val_wrapper\<close>, an \<^verbatim>\<open>async def\<close>, only creates a coroutine object.
\<close>

definition ValidateCallWrapper_call :: "'s collaborators \<Rightarrow> wrapper \<Rightarrow> pyval list \<Rightarrow> kwargs
    \<Rightarrow> 's world \<Rightarrow> (error + pyres) \<times> 's world" where
  "ValidateCallWrapper_call ext self args kwargs w =
     (case validate_python ext (pydantic_validator self) (ArgsKwargs args kwargs) w of
        (Inl e, w') \<Rightarrow> (Inl e, w')
      | (Inr res, w') \<Rightarrow>
          (case return_pydantic_validator self of
             None \<Rightarrow> (Inr res, w')
           | Some (Validate_python validator) \<Rightarrow> validate_python ext validator res w'
           | Some (Return_val_wrapper validator) \<Rightarrow>
               (Inr (Pending (Return_val_coro validator res)), w')))"

text \<open>
  Awaiting. The coroutine of an \<^verbatim>\<open>async def\<close> function runs the body. The coroutine of
  \<^verbatim>\<open>return_val_wrapper(aw)\<close> runs \<^verbatim>\<open>validator.validate_python(await aw)\<close>: it awaits
  \<^verbatim>\<open>aw\<close> first, and \<^verbatim>\<open>await\<close> on a value that is not awaitable raises
  \<^verbatim>\<open>TypeError\<close>.
\<close>

fun await_coroutine :: "'s collaborators \<Rightarrow> coroutine \<Rightarrow> 's world \<Rightarrow> (error + pyres) \<times> 's world"
and await_value :: "'s collaborators \<Rightarrow> pyres \<Rightarrow> 's world \<Rightarrow> (error + pyres) \<times> 's world" where
  "await_coroutine ext (Fn_coro f a k) w =
     (case body ext f a k (store w) of (r, st) \<Rightarrow> (r, w\<lparr>store := st\<rparr>))"
| "await_coroutine ext (Return_val_coro validator aw) w =
     (case await_value ext aw w of
        (Inl e, w') \<Rightarrow> (Inl e, w')
      | (Inr r, w') \<Rightarrow> validate_python ext validator r w')"
| "await_value ext (Pending c) w = await_coroutine ext c w"
| "await_value ext (Plain v) w = (Inl TypeError, w)"
| "await_value ext (ArgsKwargs a k) w = (Inl TypeError, w)"

subsection \<open>Equality and hash\<close>

text \<open>
  \<^verbatim>\<open>__eq__\<close> takes any object as \<^verbatim>\<open>other\<close>: a wrapper, or some other object with the
  attributes it happens to have. Of a wrapper only the three attributes that
  \<^verbatim>\<open>__eq__\<close> reads are modelled. Python's \<^verbatim>\<open>and\<close> evaluates its right operand only
  when the left one is true, so a later attribute is read only after the earlier
  comparisons succeeded.
\<close>

datatype pyany = Any_val pyval | Any_callable callable | Any_dict config_dict

datatype pyobject = Obj_wrapper wrapper | Obj_other "(string \<times> pyany) list"

fun any_eq :: "pyany \<Rightarrow> pyany \<Rightarrow> bool" where
  "any_eq (Any_val a) (Any_val b) = py_eq a b"
| "any_eq (Any_callable a) (Any_callable b) = callable_eq a b"
| "any_eq (Any_dict a) (Any_dict b) = dict_eq a b"
| "any_eq _ _ = False"

definition config_value :: "config_dict option \<Rightarrow> pyany" where
  "config_value c = (case c of None \<Rightarrow> Any_val PNone | Some d \<Rightarrow> Any_dict d)"

fun getattr :: "pyobject \<Rightarrow> string \<Rightarrow> error + pyany" where
  "getattr (Obj_other d) n =
     (case map_of d n of None \<Rightarrow> Inl AttributeError | Some v \<Rightarrow> Inr v)"
| "getattr (Obj_wrapper w) n =
     (if n = ''raw_function'' then Inr (Any_callable (raw_function w))
      else if n = ''_config'' then Inr (config_value (w_config w))
      else if n = ''_validate_return'' then Inr (Any_val (PBool (w_validate_return w)))
      else Inl AttributeError)"

definition ValidateCallWrapper_eq :: "wrapper \<Rightarrow> pyobject \<Rightarrow> error + bool" where
  "ValidateCallWrapper_eq self other =
     (case getattr other ''raw_function'' of
        Inl e \<Rightarrow> Inl e
      | Inr rf \<Rightarrow>
          if \<not> any_eq (Any_callable (raw_function self)) rf then Inr False
          else (case getattr other ''_config'' of
                  Inl e \<Rightarrow> Inl e
                | Inr c \<Rightarrow>
                    if \<not> any_eq (config_value (w_config self)) c then Inr False
                    else (case getattr other ''_validate_return'' of
                            Inl e \<Rightarrow> Inl e
                          | Inr vr \<Rightarrow>
                              Inr (any_eq (Any_val (PBool (w_validate_return self))) vr))))"

definition ValidateCallWrapper_hash :: "wrapper \<Rightarrow> int" where
  "ValidateCallWrapper_hash self = hash_callable (raw_function self)"

section \<open>Classes, instances and the attribute protocol\<close>

text \<open>
  What a namespace (the \<^verbatim>\<open>__dict__\<close> of a class or of an instance) can hold: a
  wrapper, a plain callable, or a value. A class has its \<^verbatim>\<open>__name__\<close>, its method
  resolution order (itself first, \<^verbatim>\<open>object\<close> left out) and its namespace; a class that
  declares \<^verbatim>\<open>__slots__\<close> has that entry in its namespace. An instance has its class
  and its own namespace. The heap holds the classes, the instances and the wrappers, each
  addressed by its index; a new wrapper is appended.
\<close>

datatype attr = Attr_wrapper addr | Attr_callable callable | Attr_value pyval

record pyclass =
  cls_name :: string
  cls_mro :: "addr list"
  cls_dict :: "(string \<times> attr) list"

record pyinstance =
  inst_class :: addr
  inst_dict :: "(string \<times> attr) list"

record heap =
  classes :: "pyclass list"
  instances :: "pyinstance list"
  wrappers :: "wrapper list"

definition lookup :: "'a list \<Rightarrow> addr \<Rightarrow> 'a option" where
  "lookup xs a = (if a < length xs then Some (xs ! a) else None)"

text \<open>The first entry for a name along a method resolution order.\<close>

fun mro_lookup :: "heap \<Rightarrow> addr list \<Rightarrow> string \<Rightarrow> attr option" where
  "mro_lookup h [] n = None"
| "mro_lookup h (c # cs) n =
     (case lookup (classes h) c of
        None \<Rightarrow> mro_lookup h cs n
      | Some k \<Rightarrow>
          (case map_of (cls_dict k) n of
             Some v \<Rightarrow> Some v
           | None \<Rightarrow> mro_lookup h cs n))"

text \<open>
  \<^verbatim>\<open>hasattr(objtype, name)\<close> and \<^verbatim>\<open>hasattr(obj, name)\<close>, for a name that the
  metaclass does not define, such as \<^verbatim>\<open>__slots__\<close>. \<^verbatim>\<open>hasattr(None, '__slots__')\<close>
  is false.
\<close>

definition hasattr_class :: "heap \<Rightarrow> addr \<Rightarrow> string \<Rightarrow> bool" where
  "hasattr_class h c n =
     (case lookup (classes h) c of
        None \<Rightarrow> False
      | Some k \<Rightarrow> (case mro_lookup h (cls_mro k) n of None \<Rightarrow> False | Some v \<Rightarrow> True))"

definition hasattr_object :: "heap \<Rightarrow> addr option \<Rightarrow> string \<Rightarrow> bool" where
  "hasattr_object h obj n =
     (case obj of
        None \<Rightarrow> False
      | Some a \<Rightarrow>
          (case lookup (instances h) a of
             None \<Rightarrow> False
           | Some i \<Rightarrow>
               (case map_of (inst_dict i) n of
                  Some v \<Rightarrow> True
                | None \<Rightarrow> hasattr_class h (inst_class i) n)))"

text \<open>
  \<^verbatim>\<open>objtype.__getattribute__(objtype, name)\<close> is \<^verbatim>\<open>object.__getattribute__\<close>
  applied to the class object as to an instance of its metaclass: it returns the
  entry of the class's own namespace as it is, without the descriptor protocol and
  without looking into base classes, and raises \<^verbatim>\<open>AttributeError\<close> when there is
  none (for a name that the metaclass does not define).
\<close>

definition object_getattribute_class :: "heap \<Rightarrow> addr \<Rightarrow> string \<Rightarrow> error + attr" where
  "object_getattribute_class h c n =
     (case lookup (classes h) c of
        None \<Rightarrow> Inl DanglingReference
      | Some k \<Rightarrow>
          (case map_of (cls_dict k) n of
             None \<Rightarrow> Inl AttributeError
           | Some v \<Rightarrow> Inr v))"

text \<open>
  \<^verbatim>\<open>object.__setattr__(obj, name, value)\<close> on an instance stores into the namespace of
  the instance. On a class object it raises: CPython refuses to apply
  \<^verbatim>\<open>object.__setattr__\<close> to an object whose type defines its own attribute setter, as
  \<^verbatim>\<open>type\<close> does (\<^verbatim>\<open>TypeError: can't apply this __setattr__ to type object\<close>).
\<close>

definition object_setattr_instance :: "heap \<Rightarrow> addr \<Rightarrow> string \<Rightarrow> attr \<Rightarrow> error + heap" where
  "object_setattr_instance h a n v =
     (case lookup (instances h) a of
        None \<Rightarrow> Inl DanglingReference
      | Some i \<Rightarrow>
          Inr (h\<lparr>instances := (instances h)[a := i\<lparr>inst_dict := (n, v) # inst_dict i\<rparr>]\<rparr>))"

definition object_setattr_class :: "heap \<Rightarrow> addr \<Rightarrow> string \<Rightarrow> attr \<Rightarrow> error + heap" where
  "object_setattr_class h c n v = Inl TypeError"

subsection \<open>The descriptor method of the wrapper\<close>

text \<open>
  Lines 120 to 131 of \<^verbatim>\<open>__get__\<close>: on an access through a class (\<^verbatim>\<open>obj is None\<close>)
  the wrapper first learns its name from the raw callable when it has none, then
  returns what the namespace of \<^verbatim>\<open>objtype\<close> holds under that name, if anything.
  The result \<open>Inr (Some v)\<close> is the early return of \<open>v\<close>, \<open>Inr None\<close> falls through.
\<close>

definition get_class_attribute :: "addr \<Rightarrow> addr option \<Rightarrow> addr \<Rightarrow> heap
    \<Rightarrow> (error + attr option) \<times> heap" where
  "get_class_attribute self obj objtype h =
     (case obj of
        Some a \<Rightarrow> (Inr None, h)
      | None \<Rightarrow>
          (case lookup (wrappers h) self of
             None \<Rightarrow> (Inl DanglingReference, h)
           | Some w \<Rightarrow>
               (case (case attr_name w of
                        Some n \<Rightarrow> Inr (n, h)
                      | None \<Rightarrow>
                          sum_bind (callable_name (raw_function w)) (\<lambda>n.
                            Inr (n, h\<lparr>wrappers := (wrappers h)[self := w\<lparr>attr_name := Some n\<rparr>]\<rparr>)))
                of
                  Inl e \<Rightarrow> (Inl e, h)
                | Inr (n, h1) \<Rightarrow>
                    (case object_getattribute_class h1 objtype n of
                       Inr v \<Rightarrow> (Inr (Some v), h1)
                     | Inl e \<Rightarrow> if e = AttributeError then (Inr None, h1) else (Inl e, h1)))))"

text \<open>
  \<^verbatim>\<open>obj.__class__ if obj is not None else objtype.__name__\<close>: a class object in the
  first case, a string in the second.
\<close>

definition calling_class :: "heap \<Rightarrow> addr option \<Rightarrow> addr \<Rightarrow> error + pyval" where
  "calling_class h obj objtype =
     (case obj of
        Some a \<Rightarrow>
          (case lookup (instances h) a of
             None \<Rightarrow> Inl DanglingReference
           | Some i \<Rightarrow> Inr (PCls (inst_class i)))
      | None \<Rightarrow>
          (case lookup (classes h) objtype of
             None \<Rightarrow> Inl DanglingReference
           | Some k \<Rightarrow> Inr (PStr (cls_name k))))"

text \<open>\<^verbatim>\<open>qualname.split('.')[0]\<close>: the characters before the first dot.\<close>

definition split_first :: "string \<Rightarrow> string" where
  "split_first qn = takeWhile (\<lambda>c. c \<noteq> CHR ''.'') qn"

text \<open>
  Lines 133 to 150 of \<^verbatim>\<open>__get__\<close>: bind the raw callable, construct the new
  wrapper (allocated at the next address), and store it under the wrapper's name when
  the guard of line 145 holds.
\<close>

definition bind_and_cache :: "'s collaborators \<Rightarrow> addr \<Rightarrow> addr option \<Rightarrow> addr \<Rightarrow> heap
    \<Rightarrow> (error + attr) \<times> heap" where
  "bind_and_cache ext self obj objtype h =
     (case lookup (wrappers h) self of
        None \<Rightarrow> (Inl DanglingReference, h)
      | Some w \<Rightarrow>
     (case callable_get (raw_function w) obj of
        Inl e \<Rightarrow> (Inl e, h)
      | Inr bound_function \<Rightarrow>
     (case ValidateCallWrapper_init ext bound_function (w_config w) (w_validate_return w) of
        Inl e \<Rightarrow> (Inl e, h)
      | Inr r \<Rightarrow>
          let result = length (wrappers h);
              h1 = h\<lparr>wrappers := wrappers h @ [r]\<rparr>;
              has_slots = (hasattr_object h1 obj ''__slots__''
                           \<or> hasattr_class h1 objtype ''__slots__'')
          in
     (case calling_class h1 obj objtype of
        Inl e \<Rightarrow> (Inl e, h1)
      | Inr cc \<Rightarrow>
     (case callable_qualname (raw_function w) of
        Inl e \<Rightarrow> (Inl e, h1)
      | Inr qn \<Rightarrow>
          let raw_function_class = split_first qn
          in
     (case attr_name w of
        None \<Rightarrow> (Inr (Attr_wrapper result), h1)
      | Some n \<Rightarrow>
          if \<not> (has_slots \<or> py_ne cc (PStr raw_function_class)) then
            (case (case obj of
                     Some a \<Rightarrow> object_setattr_instance h1 a n (Attr_wrapper result)
                   | None \<Rightarrow> object_setattr_class h1 objtype n (Attr_wrapper result))
             of
               Inl e \<Rightarrow> (Inl e, h1)
             | Inr h2 \<Rightarrow> (Inr (Attr_wrapper result), h2))
          else (Inr (Attr_wrapper result), h1)))))))"

text \<open>
  \<^verbatim>\<open>__get__(self, obj, objtype)\<close>, as the attribute protocol calls it: \<^verbatim>\<open>objtype\<close>
  is always a class.
\<close>

definition ValidateCallWrapper_get :: "'s collaborators \<Rightarrow> addr \<Rightarrow> addr option \<Rightarrow> addr \<Rightarrow> heap
    \<Rightarrow> (error + attr) \<times> heap" where
  "ValidateCallWrapper_get ext self obj objtype h =
     (case get_class_attribute self obj objtype h of
        (Inl e, h1) \<Rightarrow> (Inl e, h1)
      | (Inr (Some v), h1) \<Rightarrow> (Inr v, h1)
      | (Inr None, h1) \<Rightarrow> bind_and_cache ext self obj objtype h1)"

text \<open>\<^verbatim>\<open>__set_name__(self, owner, name)\<close>.\<close>

definition ValidateCallWrapper_set_name :: "addr \<Rightarrow> addr \<Rightarrow> string \<Rightarrow> heap \<Rightarrow> error + heap" where
  "ValidateCallWrapper_set_name self owner name h =
     (case lookup (wrappers h) self of
        None \<Rightarrow> Inl DanglingReference
      | Some w \<Rightarrow> Inr (h\<lparr>wrappers := (wrappers h)[self := w\<lparr>attr_name := Some name\<rparr>]\<rparr>))"

subsection \<open>Attribute access\<close>

text \<open>
  \<^verbatim>\<open>obj.name\<close> on an instance: the wrapper defines \<^verbatim>\<open>__get__\<close> and no
  \<^verbatim>\<open>__set__\<close>, so an entry of the instance's own namespace comes first; otherwise
  the entry found along the method resolution order of its class is bound to the
  instance. \<^verbatim>\<open>cls.name\<close> on a class: the entry found along the method resolution
  order of the class is bound with \<^verbatim>\<open>obj = None\<close>.
\<close>

definition getattr_instance :: "'s collaborators \<Rightarrow> addr \<Rightarrow> string \<Rightarrow> heap
    \<Rightarrow> (error + attr) \<times> heap" where
  "getattr_instance ext a n h =
     (case lookup (instances h) a of
        None \<Rightarrow> (Inl DanglingReference, h)
      | Some i \<Rightarrow>
     (case map_of (inst_dict i) n of
        Some v \<Rightarrow> (Inr v, h)
      | None \<Rightarrow>
     (case lookup (classes h) (inst_class i) of
        None \<Rightarrow> (Inl DanglingReference, h)
      | Some k \<Rightarrow>
     (case mro_lookup h (cls_mro k) n of
        None \<Rightarrow> (Inl AttributeError, h)
      | Some (Attr_wrapper self) \<Rightarrow> ValidateCallWrapper_get ext self (Some a) (inst_class i) h
      | Some (Attr_callable c) \<Rightarrow>
          (case callable_get c (Some a) of
             Inl e \<Rightarrow> (Inr (Attr_callable c), h)
           | Inr b \<Rightarrow> (Inr (Attr_callable b), h))
      | Some (Attr_value v) \<Rightarrow> (Inr (Attr_value v), h)))))"

definition getattr_class :: "'s collaborators \<Rightarrow> addr \<Rightarrow> string \<Rightarrow> heap
    \<Rightarrow> (error + attr) \<times> heap" where
  "getattr_class ext c n h =
     (case lookup (classes h) c of
        None \<Rightarrow> (Inl DanglingReference, h)
      | Some k \<Rightarrow>
     (case mro_lookup h (cls_mro k) n of
        None \<Rightarrow> (Inl AttributeError, h)
      | Some (Attr_wrapper self) \<Rightarrow> ValidateCallWrapper_get ext self None c h
      | Some (Attr_callable f) \<Rightarrow> (Inr (Attr_callable f), h)
      | Some (Attr_value v) \<Rightarrow> (Inr (Attr_value v), h)))"

text \<open>
  The value of \<^verbatim>\<open>_name\<close> after \<^verbatim>\<open>__get__\<close>, read off lines 124 and 125: a
  known name stays; an unknown one becomes the raw callable's \<^verbatim>\<open>__name__\<close> on an
  access through a class, and stays unknown otherwise.
\<close>

definition learned_name :: "wrapper \<Rightarrow> addr option \<Rightarrow> string option" where
  "learned_name w obj =
     (case attr_name w of
        Some n \<Rightarrow> Some n
      | None \<Rightarrow>
          (case obj of
             Some a \<Rightarrow> None
           | None \<Rightarrow> (case callable_name (raw_function w) of Inl e \<Rightarrow> None | Inr n \<Rightarrow> Some n)))"

section \<open>Example programs\<close>

text \<open>
  Collaborators for the examples: every callable has the signature \<^verbatim>\<open>(x: int) -> int\<close>,
  every schema can be built, arguments are valid when each is an integer or an
  instance, a return value is valid when it is a non-negative integer, and every body
  counts its runs in the state and returns its last argument.
\<close>

definition sample_signature :: signature where
  "sample_signature =
     \<lparr>sig_parameters = [(''x'', Some (Annotation ''int''))],
      return_annotation = Some (Annotation ''int'')\<rparr>"

definition sample_collaborators :: "nat collaborators" where
  "sample_collaborators =
     \<lparr>inspect_signature = (\<lambda>c. Some sample_signature),
      resolvable = (\<lambda>cfg t. True),
      accepts_args =
        (\<lambda>v a k. if list_all (\<lambda>x. case x of PInt i \<Rightarrow> True | PInst i \<Rightarrow> True | _ \<Rightarrow> False) a
                 then Some (a, k) else None),
      accepts_value = (\<lambda>v r. case r of Plain (PInt i) \<Rightarrow> if 0 \<le> i then Some r else None
                                      | _ \<Rightarrow> None),
      body = (\<lambda>f a k s. (Inr (Plain (last (PNone # a))), Suc s))\<rparr>"

text \<open>
  A module-level function \<^verbatim>\<open>compute\<close>, a module-level \<^verbatim>\<open>async def fetch\<close>, and a
  method \<^verbatim>\<open>f\<close> declared in the body of a module-level class \<^verbatim>\<open>A\<close>.
\<close>

definition compute :: function_obj where
  "compute = \<lparr>fn_id = 0, fn_name = ''compute'', fn_qualname = ''compute'',
              fn_annotations = [(''x'', ''int''), (''return'', ''int'')],
              fn_module = ''app'', fn_doc = Some ''Compute.'', fn_async = False\<rparr>"

definition fetch :: function_obj where
  "fetch = \<lparr>fn_id = 1, fn_name = ''fetch'', fn_qualname = ''fetch'',
            fn_annotations = [(''x'', ''int''), (''return'', ''int'')],
            fn_module = ''app'', fn_doc = None, fn_async = True\<rparr>"

definition method_f :: function_obj where
  "method_f = \<lparr>fn_id = 2, fn_name = ''f'', fn_qualname = ''A.f'',
               fn_annotations = [(''x'', ''int''), (''return'', ''int'')],
               fn_module = ''app'', fn_doc = None, fn_async = False\<rparr>"

definition built :: "error + wrapper \<Rightarrow> wrapper list" where
  "built r = (case r of Inl e \<Rightarrow> [] | Inr w \<Rightarrow> [w])"

text \<open>
  \<^verbatim>\<open>class A: f = validate_call(f)\<close> in a class body, with one instance of \<^verbatim>\<open>A\<close>:
  the class at address 0 holds the wrapper (address 0) under \<^verbatim>\<open>f\<close>, and
  \<^verbatim>\<open>__set_name__\<close> has set the wrapper's \<^verbatim>\<open>_name\<close> to \<^verbatim>\<open>f\<close>.
\<close>

definition method_heap :: heap where
  "method_heap =
     \<lparr>classes = [\<lparr>cls_name = ''A'', cls_mro = [0], cls_dict = [(''f'', Attr_wrapper 0)]\<rparr>],
      instances = [\<lparr>inst_class = 0, inst_dict = []\<rparr>],
      wrappers = map (\<lambda>w. w\<lparr>attr_name := Some ''f''\<rparr>)
                   (built (ValidateCallWrapper_init sample_collaborators
                             (Function method_f) None False))\<rparr>"

text \<open>
  The same class \<^verbatim>\<open>A\<close> with a subclass that is also named \<^verbatim>\<open>A\<close> (as
  \<^verbatim>\<open>class A(base.A): pass\<close> in another module) and does not define \<^verbatim>\<open>f\<close>, with
  one instance of the subclass.
\<close>

definition subclass_heap :: heap where
  "subclass_heap =
     \<lparr>classes = [\<lparr>cls_name = ''A'', cls_mro = [0], cls_dict = [(''f'', Attr_wrapper 0)]\<rparr>,
                 \<lparr>cls_name = ''A'', cls_mro = [1, 0], cls_dict = []\<rparr>],
      instances = [\<lparr>inst_class = 1, inst_dict = []\<rparr>],
      wrappers = map (\<lambda>w. w\<lparr>attr_name := Some ''f''\<rparr>)
                   (built (ValidateCallWrapper_init sample_collaborators
                             (Function method_f) None False))\<rparr>"

text \<open>
  A wrapper attached to a class after the class was created,
  \<^verbatim>\<open>A.g = validate_call(compute)\<close>: no \<^verbatim>\<open>__set_name__\<close> ran, so \<^verbatim>\<open>_name\<close> is
  \<^verbatim>\<open>None\<close>.
\<close>

definition dynamic_heap :: heap where
  "dynamic_heap =
     \<lparr>classes = [\<lparr>cls_name = ''A'', cls_mro = [0], cls_dict = [(''g'', Attr_wrapper 0)]\<rparr>],
      instances = [],
      wrappers = built (ValidateCallWrapper_init sample_collaborators
                          (Function compute) None False)\<rparr>"

definition empty_world :: "nat world" where
  "empty_world = \<lparr>invoked = [], store = 0\<rparr>"

text \<open>
  The wrapper that \<^verbatim>\<open>validate_call(validate_return=True)(fetch)\<close> constructs under
  the example collaborators, written out.
\<close>

definition fetch_wrapper :: wrapper where
  "fetch_wrapper =
     \<lparr>raw_function = Function fetch, w_config = None, w_validate_return = True,
      w_signature = sample_signature,
      w_name = ''fetch'', w_qualname = ''fetch'',
      w_annotations = [(''x'', ''int''), (''return'', ''int'')],
      w_module = ''app'', w_doc = None,
      pydantic_core_schema = Call_schema (Function fetch),
      pydantic_validator =
        \<lparr>v_schema = Call_schema (Function fetch), v_schema_type = Function fetch,
         v_module = ''app'', v_qualname = ''fetch'', v_schema_kind = ''validate_call'',
         v_core_config = None\<rparr>,
      return_pydantic_core_schema = Some (Type_schema (Annotation ''int'')),
      return_pydantic_validator =
        Some (Return_val_wrapper
                \<lparr>v_schema = Type_schema (Annotation ''int''), v_schema_type = Function fetch,
                 v_module = ''app'', v_qualname = ''fetch'', v_schema_kind = ''validate_call'',
                 v_core_config = None\<rparr>),
      attr_name = None\<rparr>"

section \<open>Properties of the constructor\<close>

lemma init_fields:
  assumes "ValidateCallWrapper_init ext f c vr = Inr w"
  shows "raw_function w = f" and "w_config w = c" and "w_validate_return w = vr"
    and "attr_name w = None"
  using assms
  unfolding ValidateCallWrapper_init_def
  by (auto simp: Let_def split: option.splits sum.splits if_splits prod.splits)

lemma init_validator:
  assumes "ValidateCallWrapper_init ext f c vr = Inr w"
  shows "v_schema (pydantic_validator w) = Call_schema f"
  using assms
  unfolding ValidateCallWrapper_init_def generate_schema_def create_schema_validator_def
  by (auto simp: Let_def split: option.splits sum.splits if_splits prod.splits)

lemma init_no_return_validation:
  assumes "ValidateCallWrapper_init ext f c False = Inr w"
  shows "return_pydantic_validator w = None" and "return_pydantic_core_schema w = None"
  using assms
  unfolding ValidateCallWrapper_init_def
  by (auto simp: Let_def split: option.splits sum.splits if_splits prod.splits)

lemma init_return_validation:
  assumes "ValidateCallWrapper_init ext f c True = Inr w"
  shows "\<exists>v. return_pydantic_validator w =
               Some (if iscoroutinefunction f then Return_val_wrapper v else Validate_python v)
             \<and> v_schema v = Type_schema (case return_annotation (w_signature w) of
                                           Some t \<Rightarrow> t | None \<Rightarrow> Any)
             \<and> return_pydantic_core_schema w = Some (v_schema v)"
  using assms
  unfolding ValidateCallWrapper_init_def generate_schema_def create_schema_validator_def
  by (auto simp: Let_def split: option.splits sum.splits if_splits prod.splits)

lemmas sample_defs =
  sample_collaborators_def sample_signature_def compute_def fetch_def method_f_def built_def
  method_heap_def subclass_heap_def dynamic_heap_def empty_world_def

lemmas model_defs =
  ValidateCallWrapper_init_def identity_fields_def sum_bind_def generate_schema_def
  create_schema_validator_def ValidateCallWrapper_call_def validate_python_def invoke_def
  ValidateCallWrapper_get_def get_class_attribute_def bind_and_cache_def calling_class_def
  split_first_def object_getattribute_class_def object_setattr_instance_def
  object_setattr_class_def hasattr_class_def hasattr_object_def lookup_def
  getattr_instance_def getattr_class_def py_ne_def learned_name_def Let_def

text \<open>
  C7. Wrapping a partial application of \<open>u\<close> gives the display name
  \<^verbatim>\<open>partial(\<close>\<open>u\<close>'s name\<^verbatim>\<open>)\<close>, the qualified name wrapped in the same way, and
  the annotations, module and doc of \<open>u\<close>; wrapping any other callable gives that
  callable's own name, qualified name, annotations, module and doc.
\<close>

theorem wrapper_identity:
  assumes "ValidateCallWrapper_init ext function cfg vr = Inr w"
  shows "(\<forall>p u a k. function = Partial p u a k \<longrightarrow>
            (\<exists>n q. callable_name u = Inr n \<and> callable_qualname u = Inr q
                 \<and> w_name w = ''partial('' @ n @ '')''
                 \<and> w_qualname w = ''partial('' @ q @ '')'')
            \<and> callable_annotations u = Inr (w_annotations w)
            \<and> callable_module u = Inr (w_module w)
            \<and> callable_doc u = Inr (w_doc w))
       \<and> ((\<forall>p u a k. function \<noteq> Partial p u a k) \<longrightarrow>
            callable_name function = Inr (w_name w)
            \<and> callable_qualname function = Inr (w_qualname w)
            \<and> callable_annotations function = Inr (w_annotations w)
            \<and> callable_module function = Inr (w_module w)
            \<and> callable_doc function = Inr (w_doc w))"
  using assms
  unfolding ValidateCallWrapper_init_def identity_fields_def sum_bind_def
  by (cases "function")
     (auto simp: Let_def split: option.splits sum.splits if_splits prod.splits)

theorem wrapper_identity_witness:
  "\<exists>w. ValidateCallWrapper_init sample_collaborators
           (Partial 7 (Function compute) [PInt 1] []) None False = Inr w
      \<and> w_name w = ''partial(compute)'' \<and> w_qualname w = ''partial(compute)''
      \<and> w_annotations w = fn_annotations compute
      \<and> w_module w = fn_module compute \<and> w_doc w = fn_doc compute"
proof -
  obtain w where w: "ValidateCallWrapper_init sample_collaborators
           (Partial 7 (Function compute) [PInt 1] []) None False = Inr w"
    by (simp add: model_defs sample_defs)
  from wrapper_identity[OF w] have
    "(\<exists>n q. callable_name (Function compute) = Inr n \<and> callable_qualname (Function compute) = Inr q
         \<and> w_name w = ''partial('' @ n @ '')''
         \<and> w_qualname w = ''partial('' @ q @ '')'')
     \<and> callable_annotations (Function compute) = Inr (w_annotations w)
     \<and> callable_module (Function compute) = Inr (w_module w)
     \<and> callable_doc (Function compute) = Inr (w_doc w)"
    by blast
  then have "w_name w = ''partial(compute)'' \<and> w_qualname w = ''partial(compute)''
      \<and> w_annotations w = fn_annotations compute
      \<and> w_module w = fn_module compute \<and> w_doc w = fn_doc compute"
    by (auto simp: compute_def)
  with w show ?thesis by blast
qed

section \<open>Properties of calls\<close>

text \<open>
  C2. When the arguments violate the argument schema of a wrapper, calling the wrapper
  raises \<^verbatim>\<open>ValidationError\<close> and leaves the world as it was: the log of invocations
  has no new entry, so the raw callable was not invoked, and the state is unchanged.
  This holds with and without return validation.
\<close>

theorem invalid_arguments_raise:
  assumes "ValidateCallWrapper_init ext f cfg vr = Inr w"
    and "accepts_args ext (pydantic_validator w) args kwargs = None"
  shows "ValidateCallWrapper_call ext w args kwargs s = (Inl ValidationError, s)"
  using assms(2) init_validator[OF assms(1)]
  by (simp add: ValidateCallWrapper_call_def validate_python_def)

theorem invalid_arguments_raise_witness:
  "\<exists>w. ValidateCallWrapper_init sample_collaborators (Function compute) None True = Inr w
      \<and> accepts_args sample_collaborators (pydantic_validator w) [PStr ''a''] [] = None
      \<and> ValidateCallWrapper_call sample_collaborators w [PStr ''a''] [] empty_world
          = (Inl ValidationError, empty_world)"
proof -
  obtain w where w: "ValidateCallWrapper_init sample_collaborators (Function compute) None True = Inr w"
    by (simp add: model_defs sample_defs)
  have a: "accepts_args sample_collaborators (pydantic_validator w) [PStr ''a''] [] = None"
    by (simp add: sample_collaborators_def)
  from invalid_arguments_raise[OF w a] w a show ?thesis by blast
qed

text \<open>
  C8. For a wrapper built without return validation and arguments that satisfy its
  argument schema, calling the wrapper is exactly the invocation of the raw callable on
  the coerced arguments: the same result or exception, the same effects, and no return
  validator is stored or applied.
\<close>

theorem call_without_return_validation:
  assumes "ValidateCallWrapper_init ext f cfg False = Inr w"
    and "accepts_args ext (pydantic_validator w) args kwargs = Some (a', k')"
  shows "return_pydantic_validator w = None
       \<and> ValidateCallWrapper_call ext w args kwargs s = invoke ext f a' k' s"
proof -
  obtain r s' where inv: "invoke ext f a' k' s = (r, s')"
    by (cases "invoke ext f a' k' s")
  have "validate_python ext (pydantic_validator w) (ArgsKwargs args kwargs) s = (r, s')"
    using assms(2) init_validator[OF assms(1)] inv
    by (simp add: validate_python_def)
  then show ?thesis
    using init_no_return_validation(1)[OF assms(1)] inv
    by (cases r) (simp_all add: ValidateCallWrapper_call_def)
qed

theorem call_without_return_validation_witness:
  "\<exists>w. ValidateCallWrapper_init sample_collaborators (Function compute) None False = Inr w
      \<and> accepts_args sample_collaborators (pydantic_validator w) [PInt (- 3)] []
          = Some ([PInt (- 3)], [])
      \<and> ValidateCallWrapper_call sample_collaborators w [PInt (- 3)] [] empty_world
          = (Inr (Plain (PInt (- 3))), \<lparr>invoked = [(0, [PInt (- 3)], [])], store = 1\<rparr>)"
proof -
  obtain w where w: "ValidateCallWrapper_init sample_collaborators (Function compute) None False = Inr w"
    by (simp add: model_defs sample_defs)
  have a: "accepts_args sample_collaborators (pydantic_validator w) [PInt (- 3)] []
             = Some ([PInt (- 3)], [])"
    by (simp add: sample_collaborators_def)
  have "invoke sample_collaborators (Function compute) [PInt (- 3)] [] empty_world
          = (Inr (Plain (PInt (- 3))), \<lparr>invoked = [(0, [PInt (- 3)], [])], store = 1\<rparr>)"
    by (simp add: invoke_def sample_defs)
  with call_without_return_validation[OF w a, of empty_world] w a show ?thesis by auto
qed

text \<open>
  C4. With return validation, the constructor stores one of the two strategies, chosen
  by \<^verbatim>\<open>inspect.iscoroutinefunction\<close> of the callable it is given. A call reads the
  stored strategy only: it gives the same outcome whatever \<^verbatim>\<open>raw_function\<close> holds
  at the time of the call, and what it does with the result of the argument validator
  depends on the choice made at construction, not on the result.
\<close>

theorem return_strategy_fixed_at_construction:
  assumes "ValidateCallWrapper_init ext f cfg True = Inr w"
  shows "\<exists>v. return_pydantic_validator w =
               Some (if iscoroutinefunction f then Return_val_wrapper v else Validate_python v)
            \<and> (\<forall>g args kwargs s.
                  ValidateCallWrapper_call ext (w\<lparr>raw_function := g\<rparr>) args kwargs s =
                  ValidateCallWrapper_call ext w args kwargs s)
            \<and> (\<forall>args kwargs s res s'.
                  validate_python ext (pydantic_validator w) (ArgsKwargs args kwargs) s = (Inr res, s')
                  \<longrightarrow> ValidateCallWrapper_call ext w args kwargs s =
                        (if iscoroutinefunction f
                         then (Inr (Pending (Return_val_coro v res)), s')
                         else validate_python ext v res s'))"
proof -
  from init_return_validation[OF assms] obtain v where
    v: "return_pydantic_validator w =
          Some (if iscoroutinefunction f then Return_val_wrapper v else Validate_python v)"
    by blast
  have "ValidateCallWrapper_call ext (w\<lparr>raw_function := g\<rparr>) args kwargs s =
        ValidateCallWrapper_call ext w args kwargs s" for g args kwargs s
    by (simp add: ValidateCallWrapper_call_def split: prod.splits sum.splits)
  moreover have "ValidateCallWrapper_call ext w args kwargs s =
        (if iscoroutinefunction f
         then (Inr (Pending (Return_val_coro v res)), s')
         else validate_python ext v res s')"
    if "validate_python ext (pydantic_validator w) (ArgsKwargs args kwargs) s = (Inr res, s')"
    for args kwargs s res s'
    using that v by (simp add: ValidateCallWrapper_call_def)
  ultimately show ?thesis using v by blast
qed

theorem return_strategy_fixed_at_construction_witness:
  "\<exists>w v. ValidateCallWrapper_init sample_collaborators (Function fetch) None True = Inr w
        \<and> return_pydantic_validator w = Some (Return_val_wrapper v)
        \<and> ValidateCallWrapper_call sample_collaborators (w\<lparr>raw_function := Function compute\<rparr>)
             [PInt 3] [] empty_world
           = ValidateCallWrapper_call sample_collaborators w [PInt 3] [] empty_world"
proof -
  obtain w where w: "ValidateCallWrapper_init sample_collaborators (Function fetch) None True = Inr w"
    by (simp add: model_defs sample_defs)
  from return_strategy_fixed_at_construction[OF w] obtain v where
    "return_pydantic_validator w =
       Some (if iscoroutinefunction (Function fetch) then Return_val_wrapper v
             else Validate_python v)"
    and "\<forall>g args kwargs s.
           ValidateCallWrapper_call sample_collaborators (w\<lparr>raw_function := g\<rparr>) args kwargs s =
           ValidateCallWrapper_call sample_collaborators w args kwargs s"
    by blast
  then have "return_pydantic_validator w = Some (Return_val_wrapper v)
     \<and> ValidateCallWrapper_call sample_collaborators (w\<lparr>raw_function := Function compute\<rparr>)
             [PInt 3] [] empty_world
           = ValidateCallWrapper_call sample_collaborators w [PInt 3] [] empty_world"
    by (simp add: fetch_def)
  with w show ?thesis by blast
qed

lemma unfold_call_async:
  "unfold_call c a k = (fo, a', k') \<Longrightarrow> fn_async fo = iscoroutinefunction c"
  by (induction c a k rule: unfold_call.induct) auto

text \<open>
  C5 (as stated, refuted). \<open>fetch_wrapper\<close> is what the constructor builds for the
  \<^verbatim>\<open>async def fetch\<close> with return validation. Called with an argument that violates
  the argument schema, it returns no coroutine object: line 113 raises
  \<^verbatim>\<open>ValidationError\<close> at the call itself, before line 115 is reached, and the world
  is as it was.
\<close>

theorem async_call_with_invalid_arguments_raises:
  "ValidateCallWrapper_init sample_collaborators (Function fetch) None True = Inr fetch_wrapper
   \<and> iscoroutinefunction (Function fetch)
   \<and> w_validate_return fetch_wrapper
   \<and> accepts_args sample_collaborators (pydantic_validator fetch_wrapper) [PStr ''a''] [] = None
   \<and> ValidateCallWrapper_call sample_collaborators fetch_wrapper [PStr ''a''] [] empty_world
        = (Inl ValidationError, empty_world)"
  by (simp add: model_defs sample_defs fetch_wrapper_def)

text \<open>
  C5 (amended). For an asynchronous callable wrapped with return validation and arguments that
  satisfy the argument schema, calling the wrapper returns a coroutine object and
  raises nothing; the body has not run (the state is unchanged). Awaiting that object
  runs the body first; then a return value that violates the return schema raises
  \<^verbatim>\<open>ValidationError\<close>, in the state the body left, and a valid one is returned. An
  exception of the body itself surfaces at the await as well.
\<close>

theorem async_return_validated_at_await:
  assumes "ValidateCallWrapper_init ext f cfg True = Inr w"
    and "iscoroutinefunction f"
    and "accepts_args ext (pydantic_validator w) args kwargs = Some (a', k')"
    and "unfold_call f a' k' = (fo, a'', k'')"
  shows "\<exists>v c s'.
           return_pydantic_validator w = Some (Return_val_wrapper v)
         \<and> ValidateCallWrapper_call ext w args kwargs s = (Inr (Pending c), s')
         \<and> store s' = store s
         \<and> (\<forall>r st. body ext (fn_id fo) a'' k'' (store s) = (Inr r, st)
                \<longrightarrow> await_coroutine ext c s' =
                      (case accepts_value ext v r of
                         None \<Rightarrow> (Inl ValidationError, s'\<lparr>store := st\<rparr>)
                       | Some y \<Rightarrow> (Inr y, s'\<lparr>store := st\<rparr>)))
         \<and> (\<forall>e st. body ext (fn_id fo) a'' k'' (store s) = (Inl e, st)
                \<longrightarrow> await_coroutine ext c s' = (Inl e, s'\<lparr>store := st\<rparr>))"
proof -
  from init_return_validation[OF assms(1)] assms(2) obtain v where
    v: "return_pydantic_validator w = Some (Return_val_wrapper v)"
    and vs: "v_schema v = Type_schema (case return_annotation (w_signature w) of
                                           Some t \<Rightarrow> t | None \<Rightarrow> Any)"
    by auto
  define s' where "s' = s\<lparr>invoked := invoked s @ [(fn_id fo, a'', k'')]\<rparr>"
  define c where "c = Return_val_coro v (Pending (Fn_coro (fn_id fo) a'' k''))"
  have async: "fn_async fo" using unfold_call_async[OF assms(4)] assms(2) by simp
  have inv: "invoke ext f a' k' s = (Inr (Pending (Fn_coro (fn_id fo) a'' k'')), s')"
    using assms(4) async by (simp add: invoke_def s'_def)
  have call: "ValidateCallWrapper_call ext w args kwargs s = (Inr (Pending c), s')"
    using assms(3) init_validator[OF assms(1)] inv v
    by (simp add: ValidateCallWrapper_call_def validate_python_def c_def)
  have st: "store s' = store s" by (simp add: s'_def)
  have ok: "await_coroutine ext c s' =
              (case accepts_value ext v r of
                 None \<Rightarrow> (Inl ValidationError, s'\<lparr>store := st\<rparr>)
               | Some y \<Rightarrow> (Inr y, s'\<lparr>store := st\<rparr>))"
    if "body ext (fn_id fo) a'' k'' (store s) = (Inr r, st)" for r st
    using that vs st by (simp add: c_def validate_python_def)
  have err: "await_coroutine ext c s' = (Inl e, s'\<lparr>store := st\<rparr>)"
    if "body ext (fn_id fo) a'' k'' (store s) = (Inl e, st)" for e st
    using that st by (simp add: c_def)
  show ?thesis using v call st ok err by blast
qed

theorem async_return_validated_at_await_witness:
  "\<exists>w c s'. ValidateCallWrapper_init sample_collaborators (Function fetch) None True = Inr w
        \<and> iscoroutinefunction (Function fetch)
        \<and> accepts_args sample_collaborators (pydantic_validator w) [PInt (- 3)] []
            = Some ([PInt (- 3)], [])
        \<and> unfold_call (Function fetch) [PInt (- 3)] [] = (fetch, [PInt (- 3)], [])
        \<and> ValidateCallWrapper_call sample_collaborators w [PInt (- 3)] [] empty_world
            = (Inr (Pending c), s')
        \<and> store s' = 0
        \<and> await_coroutine sample_collaborators c s' = (Inl ValidationError, s'\<lparr>store := 1\<rparr>)"
proof -
  obtain w where w: "ValidateCallWrapper_init sample_collaborators (Function fetch) None True = Inr w"
    by (simp add: model_defs sample_defs)
  have co: "iscoroutinefunction (Function fetch)" by (simp add: fetch_def)
  have a: "accepts_args sample_collaborators (pydantic_validator w) [PInt (- 3)] []
             = Some ([PInt (- 3)], [])"
    by (simp add: sample_collaborators_def)
  have u: "unfold_call (Function fetch) [PInt (- 3)] [] = (fetch, [PInt (- 3)], [])" by simp
  from async_return_validated_at_await[OF w co a u, of empty_world] obtain v c s' where
    call: "ValidateCallWrapper_call sample_collaborators w [PInt (- 3)] [] empty_world
             = (Inr (Pending c), s')"
    and st: "store s' = store empty_world"
    and aw: "\<forall>r st. body sample_collaborators (fn_id fetch) [PInt (- 3)] [] (store empty_world)
                      = (Inr r, st)
                \<longrightarrow> await_coroutine sample_collaborators c s' =
                      (case accepts_value sample_collaborators v r of
                         None \<Rightarrow> (Inl ValidationError, s'\<lparr>store := st\<rparr>)
                       | Some y \<Rightarrow> (Inr y, s'\<lparr>store := st\<rparr>))"
    by blast
  have b: "body sample_collaborators (fn_id fetch) [PInt (- 3)] [] (store empty_world)
             = (Inr (Plain (PInt (- 3))), 1)"
    by (simp add: sample_defs)
  have "await_coroutine sample_collaborators c s' = (Inl ValidationError, s'\<lparr>store := 1\<rparr>)"
    using aw b by (simp add: sample_collaborators_def)
  moreover have "store s' = 0" using st by (simp add: empty_world_def)
  ultimately show ?thesis using w co a u call by blast
qed

section \<open>Properties of equality and hash\<close>

lemma py_eq_refl: "py_eq v v"
  by (cases v) simp_all

lemma callable_eq_refl: "callable_eq c c"
  by (induction c) simp_all

lemma dict_eq_refl: "dict_eq d d"
proof -
  have "case (map_of d k, map_of d k) of (Some u, Some v) \<Rightarrow> py_eq u v | _ \<Rightarrow> False"
    if "k \<in> set (map fst d)" for k
  proof -
    from that obtain x where "(k, x) \<in> set d" by auto
    then obtain u where "map_of d k = Some u"
      using weak_map_of_SomeI by fastforce
    then show ?thesis by (simp add: py_eq_refl)
  qed
  then show ?thesis
    unfolding dict_eq_def list_all_iff by simp
qed

lemma config_eq_refl: "config_eq c c"
  by (cases c) (simp_all add: dict_eq_refl)

lemma any_eq_config_value: "any_eq (config_value c1) (config_value c2) = config_eq c1 c2"
  by (cases c1; cases c2) (simp_all add: config_value_def)

text \<open>
  C6. Comparing a wrapper with a wrapper returns the conjunction of the three
  comparisons: raw callables, configs and \<^verbatim>\<open>validate_return\<close> flags. The hash of a
  wrapper is the hash of its raw callable. Hence two wrappers constructed from the same
  callable, config and flag compare equal and have the same hash.
\<close>

theorem wrapper_eq_hash:
  "ValidateCallWrapper_eq w1 (Obj_wrapper w2) =
     Inr (callable_eq (raw_function w1) (raw_function w2)
          \<and> config_eq (w_config w1) (w_config w2)
          \<and> w_validate_return w1 = w_validate_return w2)
   \<and> ValidateCallWrapper_hash w1 = hash_callable (raw_function w1)
   \<and> (ValidateCallWrapper_init ext1 f c vr = Inr w1
        \<and> ValidateCallWrapper_init ext2 f c vr = Inr w2
      \<longrightarrow> ValidateCallWrapper_eq w1 (Obj_wrapper w2) = Inr True
          \<and> ValidateCallWrapper_hash w1 = ValidateCallWrapper_hash w2)"
proof -
  have eq: "ValidateCallWrapper_eq w1 (Obj_wrapper w2) =
     Inr (callable_eq (raw_function w1) (raw_function w2)
          \<and> config_eq (w_config w1) (w_config w2)
          \<and> w_validate_return w1 = w_validate_return w2)"
    unfolding ValidateCallWrapper_eq_def
    by (auto simp: any_eq_config_value)
  have twice: "ValidateCallWrapper_eq w1 (Obj_wrapper w2) = Inr True
          \<and> ValidateCallWrapper_hash w1 = ValidateCallWrapper_hash w2"
    if "ValidateCallWrapper_init ext1 f c vr = Inr w1"
      and "ValidateCallWrapper_init ext2 f c vr = Inr w2"
    using init_fields[OF that(1)] init_fields[OF that(2)]
    by (simp add: eq ValidateCallWrapper_hash_def callable_eq_refl config_eq_refl)
  show ?thesis
    using eq twice by (simp add: ValidateCallWrapper_hash_def)
qed

theorem wrapper_eq_hash_witness:
  "\<exists>w1 w2. ValidateCallWrapper_init sample_collaborators (Function compute)
              (Some [(''strict'', PBool True)]) True = Inr w1
         \<and> ValidateCallWrapper_init sample_collaborators (Function compute)
              (Some [(''strict'', PBool True)]) True = Inr w2
         \<and> ValidateCallWrapper_eq w1 (Obj_wrapper w2) = Inr True
         \<and> ValidateCallWrapper_hash w1 = ValidateCallWrapper_hash w2
         \<and> ValidateCallWrapper_hash w1 = 0"
proof -
  obtain w where w: "ValidateCallWrapper_init sample_collaborators (Function compute)
              (Some [(''strict'', PBool True)]) True = Inr w"
    by (simp add: model_defs sample_defs)
  have "ValidateCallWrapper_eq w (Obj_wrapper w) = Inr True
      \<and> ValidateCallWrapper_hash w = ValidateCallWrapper_hash w"
    using wrapper_eq_hash[of w w sample_collaborators "Function compute"
            "Some [(''strict'', PBool True)]" True sample_collaborators] w
    by blast
  moreover have "ValidateCallWrapper_hash w = 0"
    using init_fields(1)[OF w] by (simp add: ValidateCallWrapper_hash_def compute_def)
  ultimately show ?thesis using w by blast
qed

text \<open>
  C10. Comparing a wrapper with an object that has none of the attributes
  \<^verbatim>\<open>raw_function\<close>, \<^verbatim>\<open>_config\<close> and \<^verbatim>\<open>_validate_return\<close> raises
  \<^verbatim>\<open>AttributeError\<close>; it returns neither \<^verbatim>\<open>False\<close> nor \<^verbatim>\<open>NotImplemented\<close>.
\<close>

theorem eq_non_wrapper_raises:
  "map_of d ''raw_function'' = None \<Longrightarrow> map_of d ''_config'' = None
   \<Longrightarrow> map_of d ''_validate_return'' = None
   \<Longrightarrow> ValidateCallWrapper_eq w (Obj_other d) = Inl AttributeError"
  by (simp add: ValidateCallWrapper_eq_def)

theorem eq_non_wrapper_raises_witness:
  "\<exists>w. ValidateCallWrapper_init sample_collaborators (Function compute) None False = Inr w
      \<and> map_of [(''real'', Any_val (PInt 5))] ''raw_function'' = None
      \<and> map_of [(''real'', Any_val (PInt 5))] ''_config'' = None
      \<and> map_of [(''real'', Any_val (PInt 5))] ''_validate_return'' = None
      \<and> ValidateCallWrapper_eq w (Obj_other [(''real'', Any_val (PInt 5))]) = Inl AttributeError"
proof -
  obtain w where w: "ValidateCallWrapper_init sample_collaborators (Function compute) None False = Inr w"
    by (simp add: model_defs sample_defs)
  have 1: "map_of [(''real'', Any_val (PInt 5))] ''raw_function'' = None" by simp
  have 2: "map_of [(''real'', Any_val (PInt 5))] ''_config'' = None" by simp
  have 3: "map_of [(''real'', Any_val (PInt 5))] ''_validate_return'' = None" by simp
  from eq_non_wrapper_raises[OF 1 2 3, of w] w 1 2 3 show ?thesis by blast
qed

text \<open>
  The attributes of \<^verbatim>\<open>other\<close> are read one after the other, each only when the
  comparison before it succeeded: an object whose \<^verbatim>\<open>raw_function\<close> differs is
  unequal even when it lacks the other two attributes.
\<close>

lemma eq_short_circuit:
  "map_of d ''raw_function'' = Some rf \<Longrightarrow> \<not> any_eq (Any_callable (raw_function w)) rf
   \<Longrightarrow> ValidateCallWrapper_eq w (Obj_other d) = Inr False"
  by (simp add: ValidateCallWrapper_eq_def)

section \<open>Properties of the descriptor\<close>

lemma lookup_append: "a < length xs \<Longrightarrow> lookup (xs @ ys) a = lookup xs a"
  by (simp add: lookup_def nth_append)

lemma lookup_update_same: "lookup xs a = Some x \<Longrightarrow> lookup (xs[a := y]) a = Some y"
  by (simp add: lookup_def split: if_splits)

lemma lookup_update_other: "b \<noteq> a \<Longrightarrow> lookup (xs[a := y]) b = lookup xs b"
  by (simp add: lookup_def)

lemma lookup_Some_less: "lookup xs a = Some x \<Longrightarrow> a < length xs"
  by (simp add: lookup_def split: if_splits)

lemma py_ne_class_string: "py_ne (PCls c) (PStr s)"
  by (simp add: py_ne_def)

lemma get_class_attribute_frame:
  assumes "get_class_attribute self obj objtype h = (r, h1)"
    and "lookup (wrappers h) self = Some w"
  shows "classes h1 = classes h" and "instances h1 = instances h"
    and "length (wrappers h1) = length (wrappers h)"
    and "lookup (wrappers h1) self = Some (w\<lparr>attr_name := learned_name w obj\<rparr>)"
    and "\<forall>a. a \<noteq> self \<longrightarrow> lookup (wrappers h1) a = lookup (wrappers h) a"
  using assms
  unfolding get_class_attribute_def sum_bind_def learned_name_def
  by (auto simp: lookup_update_same lookup_update_other
           split: option.splits sum.splits if_splits prod.splits)

lemma get_class_attribute_early:
  "get_class_attribute self obj objtype h = (Inr (Some v), h1) \<Longrightarrow> obj = None"
  unfolding get_class_attribute_def
  by (auto split: option.splits)

lemma bind_and_cache_frame:
  assumes "bind_and_cache ext self obj objtype h = (r, h2)"
  shows "classes h2 = classes h" and "instances h2 = instances h"
    and "\<forall>a. a < length (wrappers h) \<longrightarrow> lookup (wrappers h2) a = lookup (wrappers h) a"
  using assms
  unfolding bind_and_cache_def object_setattr_class_def object_setattr_instance_def
    calling_class_def
  by (auto simp: Let_def lookup_append py_ne_class_string
           split: option.splits sum.splits if_splits prod.splits)

lemma bind_and_cache_fresh:
  assumes "bind_and_cache ext self obj objtype h = (Inr v, h2)"
  shows "v = Attr_wrapper (length (wrappers h))"
    and "length (wrappers h2) = Suc (length (wrappers h))"
  using assms
  unfolding bind_and_cache_def object_setattr_class_def object_setattr_instance_def
    calling_class_def
  by (auto simp: Let_def py_ne_class_string
           split: option.splits sum.splits if_splits prod.splits)

text \<open>
  \<^verbatim>\<open>__get__\<close> stores nothing, on any access: an instance has a class object as its
  \<^verbatim>\<open>__class__\<close>, which differs from every string, so the guard of line 145 fails; on
  an access through a class the guard can hold, and then \<^verbatim>\<open>object.__setattr__\<close>
  raises.
\<close>

lemma get_never_caches:
  assumes "ValidateCallWrapper_get ext self obj objtype h = (r, h')"
  shows "classes h' = classes h \<and> instances h' = instances h"
proof (cases "lookup (wrappers h) self")
  case None
  then show ?thesis
    using assms
    unfolding ValidateCallWrapper_get_def get_class_attribute_def bind_and_cache_def
    by (auto split: option.splits sum.splits if_splits prod.splits)
next
  case (Some w)
  obtain r1 h1 where g: "get_class_attribute self obj objtype h = (r1, h1)"
    by (cases "get_class_attribute self obj objtype h")
  note f = get_class_attribute_frame(1,2)[OF g Some]
  show ?thesis
    using assms g f bind_and_cache_frame(1,2)[of ext self obj objtype h1 r h']
    unfolding ValidateCallWrapper_get_def
    by (auto split: option.splits sum.splits)
qed

lemma get_frame:
  assumes "lookup (wrappers h) self = Some w"
    and "ValidateCallWrapper_get ext self obj objtype h = (r, h')"
  shows "lookup (wrappers h') self = Some (w\<lparr>attr_name := learned_name w obj\<rparr>)"
    and "\<forall>a. a \<noteq> self \<and> a < length (wrappers h)
              \<longrightarrow> lookup (wrappers h') a = lookup (wrappers h) a"
    and "\<forall>v. r = Inr v
              \<longrightarrow> (v = Attr_wrapper (length (wrappers h))
                   \<and> length (wrappers h') = Suc (length (wrappers h)))
                  \<or> (obj = None \<and> length (wrappers h') = length (wrappers h))"
proof -
  obtain r1 h1 where g: "get_class_attribute self obj objtype h = (r1, h1)"
    by (cases "get_class_attribute self obj objtype h")
  note f = get_class_attribute_frame(3,4,5)[OF g assms(1)]
  have less: "self < length (wrappers h)"
    using assms(1) by (rule lookup_Some_less)
  consider (err) e where "r1 = Inl e" "r = Inl e" "h' = h1"
    | (early) v where "r1 = Inr (Some v)" "r = Inr v" "h' = h1"
    | (bind) "r1 = Inr None" "bind_and_cache ext self obj objtype h1 = (r, h')"
    using assms(2) g unfolding ValidateCallWrapper_get_def
    by (auto split: sum.splits option.splits)
  then have "lookup (wrappers h') self = Some (w\<lparr>attr_name := learned_name w obj\<rparr>)
       \<and> (\<forall>a. a \<noteq> self \<and> a < length (wrappers h)
              \<longrightarrow> lookup (wrappers h') a = lookup (wrappers h) a)
       \<and> (\<forall>v. r = Inr v
              \<longrightarrow> (v = Attr_wrapper (length (wrappers h))
                   \<and> length (wrappers h') = Suc (length (wrappers h)))
                  \<or> (obj = None \<and> length (wrappers h') = length (wrappers h)))"
  proof cases
    case err
    then show ?thesis using f by simp
  next
    case early
    then show ?thesis using f g get_class_attribute_early[of self obj objtype h v h1] by simp
  next
    case bind
    note b = bind_and_cache_frame(3)[OF bind(2)]
    have "lookup (wrappers h') self = Some (w\<lparr>attr_name := learned_name w obj\<rparr>)"
      using b f less by simp
    moreover have "lookup (wrappers h') a = lookup (wrappers h) a"
      if "a \<noteq> self \<and> a < length (wrappers h)" for a
      using b f that by simp
    moreover have "v = Attr_wrapper (length (wrappers h))
                  \<and> length (wrappers h') = Suc (length (wrappers h))"
      if "r = Inr v" for v
      using bind_and_cache_fresh[of ext self obj objtype h1 v h'] bind(2) that f by simp
    ultimately show ?thesis by blast
  qed
  then show "lookup (wrappers h') self = Some (w\<lparr>attr_name := learned_name w obj\<rparr>)"
    and "\<forall>a. a \<noteq> self \<and> a < length (wrappers h)
              \<longrightarrow> lookup (wrappers h') a = lookup (wrappers h) a"
    and "\<forall>v. r = Inr v
              \<longrightarrow> (v = Attr_wrapper (length (wrappers h))
                   \<and> length (wrappers h') = Suc (length (wrappers h)))
                  \<or> (obj = None \<and> length (wrappers h') = length (wrappers h))"
    by blast+
qed

text \<open>
  An access through an instance that returns, returns a wrapper at an address the heap
  did not hold before, whatever the class of the instance. An access through a class
  whose own namespace has no entry under the wrapper's name, and whose
  \<^verbatim>\<open>__name__\<close> differs from the first component of the raw callable's qualified
  name, does the same.
\<close>

lemma get_through_instance_fresh:
  assumes "ValidateCallWrapper_get ext self (Some a) objtype h = (Inr v, h')"
  shows "v = Attr_wrapper (length (wrappers h))"
proof -
  have g: "get_class_attribute self (Some a) objtype h = (Inr None, h)"
    by (simp add: get_class_attribute_def)
  then have "bind_and_cache ext self (Some a) objtype h = (Inr v, h')"
    using assms by (simp add: ValidateCallWrapper_get_def)
  then show ?thesis by (rule bind_and_cache_fresh(1))
qed

lemma get_through_other_class_fresh:
  assumes "lookup (wrappers h) self = Some w" and "attr_name w = Some n"
    and "lookup (classes h) objtype = Some k" and "map_of (cls_dict k) n = None"
    and "ValidateCallWrapper_get ext self None objtype h = (Inr v, h')"
  shows "v = Attr_wrapper (length (wrappers h))"
proof -
  have g: "get_class_attribute self None objtype h = (Inr None, h)"
    using assms(1-4)
    by (simp add: get_class_attribute_def object_getattribute_class_def)
  then have "bind_and_cache ext self None objtype h = (Inr v, h')"
    using assms(5) by (simp add: ValidateCallWrapper_get_def)
  then show ?thesis by (rule bind_and_cache_fresh(1))
qed

text \<open>
  C1 (evaluated at a failing input). The class \<^verbatim>\<open>A\<close> of \<open>method_heap\<close> declares the
  wrapped method \<^verbatim>\<open>f\<close>: the wrapper knows its name, neither the instance nor the
  class has \<^verbatim>\<open>__slots__\<close>, and the class's name is the declaring type read off the
  qualified name \<^verbatim>\<open>A.f\<close>. Yet the access \<^verbatim>\<open>a.f\<close> through the instance stores
  nothing in the instance, and a second access builds another wrapper, at address 2,
  instead of returning the one at address 1.
\<close>

theorem instance_access_is_not_cached:
  "map_option attr_name (lookup (wrappers method_heap) 0) = Some (Some ''f'')
   \<and> hasattr_object method_heap (Some 0) ''__slots__'' = False
   \<and> hasattr_class method_heap 0 ''__slots__'' = False
   \<and> map_option cls_name (lookup (classes method_heap) 0) = Some (split_first ''A.f'')
   \<and> fst (getattr_instance sample_collaborators 0 ''f'' method_heap) = Inr (Attr_wrapper 1)
   \<and> instances (snd (getattr_instance sample_collaborators 0 ''f'' method_heap))
        = instances method_heap
   \<and> fst (getattr_instance sample_collaborators 0 ''f''
            (snd (getattr_instance sample_collaborators 0 ''f'' method_heap)))
        = Inr (Attr_wrapper 2)"
  by (simp add: model_defs sample_defs)

text \<open>
  C3 (evaluated at a failing input). In \<open>subclass_heap\<close> the subclass at address 1
  inherits the wrapped method \<^verbatim>\<open>f\<close> and has the same \<^verbatim>\<open>__name__\<close> as its base
  class. The access through the subclass obtains no wrapper: the guard of line 145
  compares names, holds, and \<^verbatim>\<open>object.__setattr__\<close> on the class raises
  \<^verbatim>\<open>TypeError\<close>. The access through an instance of the subclass returns a new
  wrapper.
\<close>

theorem same_named_subclass_access_raises:
  "map_option cls_mro (lookup (classes subclass_heap) 1) = Some [1, 0]
   \<and> map_option cls_dict (lookup (classes subclass_heap) 1) = Some []
   \<and> fst (getattr_class sample_collaborators 1 ''f'' subclass_heap) = Inl TypeError
   \<and> fst (getattr_instance sample_collaborators 0 ''f'' subclass_heap) = Inr (Attr_wrapper 1)"
  by (simp add: model_defs sample_defs)

text \<open>
  C9 (as stated, refuted). The wrapper of \<open>dynamic_heap\<close> has no name. The access
  \<^verbatim>\<open>A.g\<close> rebinds (it returns the new wrapper at address 1) and leaves the existing
  wrapper with \<^verbatim>\<open>_name\<close> set to \<^verbatim>\<open>compute\<close>.
\<close>

theorem get_sets_attr_name:
  "fst (getattr_class sample_collaborators 0 ''g'' dynamic_heap) = Inr (Attr_wrapper 1)
   \<and> map_option attr_name (lookup (wrappers dynamic_heap) 0) = Some None
   \<and> map_option attr_name
       (lookup (wrappers (snd (getattr_class sample_collaborators 0 ''g'' dynamic_heap))) 0)
      = Some (Some ''compute'')"
  by (simp add: model_defs sample_defs)

text \<open>
  C9 (amended). \<^verbatim>\<open>__get__\<close> changes no attribute of the wrapper it is called on
  other than \<^verbatim>\<open>_name\<close>: the raw callable, config, flag, signature, identity
  attributes, schemas and validators are as before, whether \<^verbatim>\<open>__get__\<close> returns or
  raises, and \<^verbatim>\<open>_name\<close> changes only from \<^verbatim>\<open>None\<close> to the raw callable's
  \<^verbatim>\<open>__name__\<close>, on an access through a class. Every other wrapper of the heap is
  unchanged. What \<^verbatim>\<open>__get__\<close> returns is a wrapper it has just constructed, at a new
  address, or, on an access through a class only, the entry that the namespace of the
  class already holds, with no wrapper constructed.
\<close>

theorem get_changes_only_attr_name:
  assumes "lookup (wrappers h) self = Some w"
    and "ValidateCallWrapper_get ext self obj objtype h = (r, h')"
  shows "lookup (wrappers h') self = Some (w\<lparr>attr_name := learned_name w obj\<rparr>)
       \<and> (\<forall>a. a \<noteq> self \<and> a < length (wrappers h)
              \<longrightarrow> lookup (wrappers h') a = lookup (wrappers h) a)
       \<and> (\<forall>v. r = Inr v
              \<longrightarrow> (v = Attr_wrapper (length (wrappers h))
                   \<and> length (wrappers h') = Suc (length (wrappers h)))
                  \<or> (obj = None \<and> length (wrappers h') = length (wrappers h)))"
  using get_frame[OF assms] by blast

theorem get_changes_only_attr_name_witness:
  "\<exists>w. lookup (wrappers method_heap) 0 = Some w
      \<and> ValidateCallWrapper_get sample_collaborators 0 (Some 0) 0 method_heap
          = (Inr (Attr_wrapper 1),
             snd (ValidateCallWrapper_get sample_collaborators 0 (Some 0) 0 method_heap))
      \<and> lookup (wrappers
                  (snd (ValidateCallWrapper_get sample_collaborators 0 (Some 0) 0 method_heap))) 0
          = Some w
      \<and> length (wrappers
                  (snd (ValidateCallWrapper_get sample_collaborators 0 (Some 0) 0 method_heap)))
          = 2"
proof -
  obtain w where w: "lookup (wrappers method_heap) 0 = Some w"
    by (simp add: model_defs sample_defs)
  have n: "attr_name w = Some ''f''"
    using w by (auto simp: model_defs sample_defs)
  have g: "ValidateCallWrapper_get sample_collaborators 0 (Some 0) 0 method_heap
          = (Inr (Attr_wrapper 1),
             snd (ValidateCallWrapper_get sample_collaborators 0 (Some 0) 0 method_heap))"
    by (simp add: model_defs sample_defs)
  have l: "length (wrappers method_heap) = 1"
    by (simp add: model_defs sample_defs)
  have same: "w\<lparr>attr_name := learned_name w (Some 0)\<rparr> = w"
    using n by (simp add: learned_name_def)
  from get_changes_only_attr_name[OF w g] same l w g show ?thesis by auto
qed

end
